theory Spec2Isabelle
  imports Main
begin

section \<open>CacheProxy: the request handler of main.go and its cache\<close>

text \<open>
  The development embeds \<^verbatim>\<open>HandleRequest\<close> of \<^verbatim>\<open>main.go\<close> together with the
  package-level \<^verbatim>\<open>cache\<close> map. Everything the handler obtains from outside the
  file (the origin server behind \<^verbatim>\<open>http.Get\<close>, the JSON scanner and encoder of
  \<^verbatim>\<open>encoding/json\<close>, the clock, the fate of a write on the client connection) is
  a parameter of the model; what the handler does with it is defined here.
\<close>

subsection \<open>Go values: byte strings, slices, header maps\<close>

type_synonym bytes = string
type_synonym error = string
type_synonym addr = nat
type_synonym time = nat

text \<open>
  A value of type \<^verbatim>\<open>[]string\<close> is a window on a backing array: assigning it
  (\<^verbatim>\<open>dst[k] = v\<close>) copies the window, never the array. The capacity is left out:
  nothing in the handler appends to a slice.
\<close>

record slice =
  arr :: addr
  off :: nat
  len :: nat

text \<open>The contents of one \<^verbatim>\<open>map[string][]string\<close> object (\<^verbatim>\<open>http.Header\<close>).\<close>

type_synonym hmap = "string \<rightharpoonup> slice"

text \<open>\<^verbatim>\<open>type CacheItem struct { Response []byte; Headers http.Header; CachedAt time.Time }\<close>.
  \<^verbatim>\<open>Headers\<close> is a reference to a map object (\<open>None\<close> is the nil map). The body is
  kept by value: it is the fresh result of \<^verbatim>\<open>json.Marshal\<close> and is only ever read.\<close>

record CacheItem =
  Response :: bytes
  Headers :: "addr option"
  CachedAt :: time

text \<open>
  The state shared by all requests: the \<^verbatim>\<open>cache\<close> map, the store of backing arrays
  and of header-map objects (an address is an index, allocation appends), and the log of
  the addresses \<^verbatim>\<open>http.Get\<close> was called with.
\<close>

record world =
  cache :: "string \<rightharpoonup> CacheItem"
  arrays :: "string list list"
  hmaps :: "hmap list"
  fetched :: "string list"

definition slice_elems :: "world \<Rightarrow> slice \<Rightarrow> string list" where
  "slice_elems s v =
     (if arr v < length (arrays s) then take (len v) (drop (off v) (arrays s ! arr v)) else [])"

text \<open>Reading through a map reference; a nil map reads as the empty map.\<close>

definition deref_map :: "world \<Rightarrow> addr option \<Rightarrow> hmap" where
  "deref_map s h =
     (case h of
        None \<Rightarrow> Map.empty
      | Some a \<Rightarrow> if a < length (hmaps s) then hmaps s ! a else Map.empty)"

text \<open>What a reader of a header map sees: for each key the strings of its slice.\<close>

definition header_values :: "world \<Rightarrow> hmap \<Rightarrow> (string \<rightharpoonup> string list)" where
  "header_values s m = (\<lambda>k. map_option (slice_elems s) (m k))"

text \<open>\<^verbatim>\<open>h.Set(key, value)\<close>, that is \<^verbatim>\<open>h[key] = []string{value}\<close>: a new one-element
  array. The keys the handler sets are already in canonical form.\<close>

definition Header_Set :: "world \<Rightarrow> hmap \<Rightarrow> string \<Rightarrow> string \<Rightarrow> world \<times> hmap" where
  "Header_Set s h key val =
     (s\<lparr>arrays := arrays s @ [[val]]\<rparr>,
      h(key \<mapsto> \<lparr>arr = length (arrays s), off = 0, len = 1\<rparr>))"

text \<open>\<^verbatim>\<open>h.Del(key)\<close>.\<close>

definition Header_Del :: "hmap \<Rightarrow> string \<Rightarrow> hmap" where
  "Header_Del h key = h(key := None)"

subsection \<open>The cache map\<close>

text \<open>\<^verbatim>\<open>cacheItem, found := cache[originURL]\<close>: the zero \<^verbatim>\<open>CacheItem\<close> and
  \<^verbatim>\<open>false\<close> when the key is absent.\<close>

definition zero_CacheItem :: CacheItem where
  "zero_CacheItem = \<lparr>Response = [], Headers = None, CachedAt = 0\<rparr>"

definition cache_lookup :: "(string \<rightharpoonup> CacheItem) \<Rightarrow> string \<Rightarrow> CacheItem \<times> bool" where
  "cache_lookup c key = (case c key of None \<Rightarrow> (zero_CacheItem, False) | Some e \<Rightarrow> (e, True))"

text \<open>\<^verbatim>\<open>cache[originURL] = CacheItem{...}\<close>.\<close>

definition cache_insert ::
  "(string \<rightharpoonup> CacheItem) \<Rightarrow> string \<Rightarrow> CacheItem \<Rightarrow> (string \<rightharpoonup> CacheItem)" where
  "cache_insert c key e = c(key \<mapsto> e)"

subsection \<open>The response writer\<close>

text \<open>
  \<^verbatim>\<open>http.ResponseWriter\<close> by its contract, as far as the handler drives it:
  \<^verbatim>\<open>Header()\<close> is the writer's own map; \<^verbatim>\<open>WriteHeader\<close> fixes the status and the
  headers once (\<open>sentHeader\<close> is the handler's map as it stands at that moment), later
  calls have no effect; the first \<^verbatim>\<open>Write\<close> implies \<^verbatim>\<open>WriteHeader(200)\<close>.
  \<open>written\<close> collects the bytes the handler hands to \<^verbatim>\<open>Write\<close>, in order; \<open>writeErr\<close>
  is the error every \<^verbatim>\<open>Write\<close> on this connection returns (\<open>None\<close>: the writes
  succeed). What the server adds to the headers and what it does with the bytes on the
  wire is not the handler's and is not modelled.
\<close>

record ResponseWriter =
  handlerHeader :: hmap
  wroteHeader :: bool
  status :: nat
  sentHeader :: "string \<rightharpoonup> string list"
  written :: bytes
  writeErr :: "error option"

definition StatusOK :: nat where "StatusOK = 200"
definition StatusInternalServerError :: nat where "StatusInternalServerError = 500"
definition StatusBadGateway :: nat where "StatusBadGateway = 502"

definition WriteHeader :: "world \<Rightarrow> ResponseWriter \<Rightarrow> nat \<Rightarrow> ResponseWriter" where
  "WriteHeader s w code =
     (if wroteHeader w then w
      else w\<lparr>wroteHeader := True, status := code,
             sentHeader := header_values s (handlerHeader w)\<rparr>)"

definition Write :: "world \<Rightarrow> ResponseWriter \<Rightarrow> bytes \<Rightarrow> ResponseWriter \<times> error option" where
  "Write s w b =
     (let w1 = (if wroteHeader w then w else WriteHeader s w StatusOK)
      in (w1\<lparr>written := written w1 @ b\<rparr>, writeErr w1))"

text \<open>\<^verbatim>\<open>http.Error(w, msg, code)\<close>: drops \<^verbatim>\<open>Content-Length\<close>, sets the two
  plain-text headers, writes the status and then the message with a newline.\<close>

definition http_Error :: "world \<Rightarrow> ResponseWriter \<Rightarrow> string \<Rightarrow> nat \<Rightarrow> world \<times> ResponseWriter" where
  "http_Error s w msg code =
     (case Header_Set s (Header_Del (handlerHeader w) ''Content-Length'')
             ''Content-Type'' ''text/plain; charset=utf-8'' of
        (s1, h1) \<Rightarrow>
          (case Header_Set s1 h1 ''X-Content-Type-Options'' ''nosniff'' of
             (s2, h2) \<Rightarrow>
               (s2, fst (Write s2 (WriteHeader s2 (w\<lparr>handlerHeader := h2\<rparr>) code)
                           (msg @ [CHR 0x0A])))))"

subsection \<open>The origin and \<^verbatim>\<open>http.Get\<close>\<close>

record url =
  Path :: string
  RawQuery :: string

record Request =
  Method :: string
  URL :: url

text \<open>What the origin answers, by value, and the \<^verbatim>\<open>*http.Response\<close> built from it.\<close>

record origin_reply =
  reply_status :: nat
  reply_header :: "(string \<times> string list) list"
  reply_body :: bytes

record http_Response =
  StatusCode :: nat
  Header :: "addr option"
  Body :: bytes

subsection \<open>JSON values as \<^verbatim>\<open>encoding/json\<close> decodes them\<close>

text \<open>
  The generic decoding of a JSON text: \<^verbatim>\<open>nil\<close>, \<^verbatim>\<open>bool\<close>, \<^verbatim>\<open>float64\<close> (the type
  \<open>'n\<close>), \<^verbatim>\<open>string\<close>, \<^verbatim>\<open>[]interface{}\<close> and \<^verbatim>\<open>map[string]interface{}\<close> (a list of
  fields, kept sorted by key and without repetition).
\<close>

datatype 'n json =
    JNull
  | JBool bool
  | JNumber 'n
  | JString string
  | JArray "'n json list"
  | JObject "(string \<times> 'n json) list"

text \<open>
  The environment of one request: what the origin answers at an address (or the error of
  the transport), the first JSON value the decoder scans from a byte stream (or its
  error), the encoding \<^verbatim>\<open>json.Marshal\<close> gives a value (or its error), and the clock.
\<close>

record 'n env =
  origin_server :: "string \<Rightarrow> error + origin_reply"
  json_value :: "bytes \<Rightarrow> error + 'n json"
  json_Marshal :: "'n json \<Rightarrow> error + bytes"
  time_Now :: time

text \<open>The transport allocates the header map of a response and one array per key.\<close>

fun alloc_values :: "string list list \<Rightarrow> (string \<times> string list) list \<Rightarrow> string list list \<times> hmap" where
  "alloc_values arrs [] = (arrs, Map.empty)"
| "alloc_values arrs ((k, vs) # kvs) =
     (case alloc_values (arrs @ [vs]) kvs of
        (arrs', m) \<Rightarrow> (arrs', m(k \<mapsto> \<lparr>arr = length arrs, off = 0, len = length vs\<rparr>)))"

text \<open>\<^verbatim>\<open>http.Get(url)\<close>: one fetch, logged; an error, or a response whose header map and
  arrays are new objects. An answer with a status other than 2xx is not an error.\<close>

definition http_Get :: "'n env \<Rightarrow> world \<Rightarrow> string \<Rightarrow> world \<times> (error + http_Response)" where
  "http_Get env s u =
     (let s1 = s\<lparr>fetched := fetched s @ [u]\<rparr> in
      case origin_server env u of
        Inl err \<Rightarrow> (s1, Inl err)
      | Inr rep \<Rightarrow>
          (case alloc_values (arrays s1) (reply_header rep) of
             (arrs, m) \<Rightarrow>
               (s1\<lparr>arrays := arrs, hmaps := hmaps s1 @ [m]\<rparr>,
                Inr \<lparr>StatusCode = reply_status rep,
                     Header = Some (length (hmaps s1)),
                     Body = reply_body rep\<rparr>)))"

text \<open>
  \<^verbatim>\<open>json.NewDecoder(res.Body).Decode(&responseData)\<close> with
  \<^verbatim>\<open>var responseData map[string]interface{}\<close>: the first JSON value of the stream is
  scanned; an object fills the map, \<^verbatim>\<open>null\<close> leaves the map nil without an error, any
  other value is a type error. \<open>None\<close> is the nil map.
\<close>

definition json_Decoder_Decode :: "'n env \<Rightarrow> bytes \<Rightarrow> error + (string \<times> 'n json) list option" where
  "json_Decoder_Decode env body =
     (case json_value env body of
        Inl err \<Rightarrow> Inl err
      | Inr (JObject members) \<Rightarrow> Inr (Some members)
      | Inr JNull \<Rightarrow> Inr None
      | Inr _ \<Rightarrow> Inl ''json: cannot unmarshal into Go value of type map[string]interface {}'')"

text \<open>The map variable as the value handed to the encoder: a nil map encodes as \<^verbatim>\<open>null\<close>.\<close>

definition map_value :: "(string \<times> 'n json) list option \<Rightarrow> 'n json" where
  "map_value m = (case m of None \<Rightarrow> JNull | Some members \<Rightarrow> JObject members)"

text \<open>\<^verbatim>\<open>json.NewEncoder(w).Encode(v)\<close>: the encoding of \<^verbatim>\<open>json.Marshal\<close> followed by a
  newline, in one \<^verbatim>\<open>Write\<close>; nothing is written when the encoding fails.\<close>

definition json_Encoder_Encode ::
  "'n env \<Rightarrow> world \<Rightarrow> ResponseWriter \<Rightarrow> 'n json \<Rightarrow> ResponseWriter \<times> error option" where
  "json_Encoder_Encode env s w v =
     (case json_Marshal env v of
        Inl err \<Rightarrow> (w, Some err)
      | Inr b \<Rightarrow> Write s w (b @ [CHR 0x0A]))"

subsection \<open>\<^verbatim>\<open>HandleRequest\<close>\<close>

text \<open>\<^verbatim>\<open>copiedHeaders := make(http.Header)\<close>: a new, empty map object.\<close>

definition make_Header :: "world \<Rightarrow> world \<times> addr option" where
  "make_Header s = (s\<lparr>hmaps := hmaps s @ [Map.empty]\<rparr>, Some (length (hmaps s)))"

text \<open>\<^verbatim>\<open>for k, v := range src { dst[k] = v }\<close> into a map object of the store: every key
  of \<open>src\<close> is assigned its slice, whatever the order of the iteration.\<close>

definition copy_into :: "world \<Rightarrow> addr option \<Rightarrow> hmap \<Rightarrow> world" where
  "copy_into s dst src =
     (case dst of
        None \<Rightarrow> s
      | Some a \<Rightarrow> s\<lparr>hmaps := (hmaps s)[a := deref_map s dst ++ src]\<rparr>)"

text \<open>
  The handler, branch by branch as in \<^verbatim>\<open>main.go\<close>: the key (line 44), the lookup
  (47-49), the hit (51-59: the range loop over the entry's headers, the marker, the
  body, whose \<^verbatim>\<open>Write\<close> result is dropped), the fetch and its error (62-66), the
  decoding and its error (69-74), the marker and the encoding to the client (76-80), the
  encoding for the cache (84-89), the copy of the headers (92-95) and the insert
  (97-101). The two critical sections (\<^verbatim>\<open>RLock\<close> around the lookup, \<^verbatim>\<open>Lock\<close>
  around the second encoding and the insert) are steps of this sequential reading.
\<close>

definition HandleRequest ::
  "'n env \<Rightarrow> world \<Rightarrow> ResponseWriter \<Rightarrow> Request \<Rightarrow> string \<Rightarrow> world \<times> ResponseWriter" where
  "HandleRequest env s w r origin =
     (let originURL = origin @ Path (URL r) in
      case cache_lookup (cache s) originURL of
        (cacheItem, True) \<Rightarrow>
          (case Header_Set s (handlerHeader w ++ deref_map s (Headers cacheItem))
                  ''X-Cache'' ''HIT'' of
             (s1, h) \<Rightarrow> (s1, fst (Write s1 (w\<lparr>handlerHeader := h\<rparr>) (Response cacheItem))))
      | (cacheItem, False) \<Rightarrow>
          (case http_Get env s originURL of
             (s1, Inl err) \<Rightarrow> http_Error s1 w ''Error fetching from origin'' StatusBadGateway
           | (s1, Inr res) \<Rightarrow>
               (case json_Decoder_Decode env (Body res) of
                  Inl err \<Rightarrow>
                    http_Error s1 w ''Error decoding response from origin''
                      StatusInternalServerError
                | Inr responseData \<Rightarrow>
                    (case Header_Set s1 (handlerHeader w) ''X-Cache'' ''MISS'' of
                       (s2, h) \<Rightarrow>
                         (case json_Encoder_Encode env s2 (w\<lparr>handlerHeader := h\<rparr>)
                                 (map_value responseData) of
                            (w1, Some err) \<Rightarrow>
                              http_Error s2 w1 ''Error encoding response''
                                StatusInternalServerError
                          | (w1, None) \<Rightarrow>
                              (case json_Marshal env (map_value responseData) of
                                 Inl err \<Rightarrow>
                                   http_Error s2 w1 ''Error encoding response for cache''
                                     StatusInternalServerError
                               | Inr body \<Rightarrow>
                                   (case make_Header s2 of
                                      (s3, copiedHeaders) \<Rightarrow>
                                        (let s4 = copy_into s3 copiedHeaders
                                                    (deref_map s3 (Header res))
                                         in (s4\<lparr>cache := cache_insert (cache s4) originURL
                                                   \<lparr>Response = body,
                                                    Headers = copiedHeaders,
                                                    CachedAt = time_Now env\<rparr>\<rparr>,
                                             w1)))))))))"

text \<open>The server calls the handler once per inbound request, with the configured origin
  (the closure registered in \<^verbatim>\<open>main\<close>); here one request after the other, each with
  its own environment and writer.\<close>

fun serve :: "string \<Rightarrow> world \<Rightarrow> ('n env \<times> ResponseWriter \<times> Request) list \<Rightarrow> world" where
  "serve origin s [] = s"
| "serve origin s ((env, w, r) # rest) = serve origin (fst (HandleRequest env s w r origin)) rest"

subsection \<open>Auxiliary notions for the statements\<close>

text \<open>Every slice of a header map points into the store.\<close>

definition valid_hmap :: "world \<Rightarrow> hmap \<Rightarrow> bool" where
  "valid_hmap s m = (\<forall>k v. m k = Some v \<longrightarrow> arr v < length (arrays s))"

text \<open>Every header map of the store is valid: no slice dangles.\<close>

definition wf_world :: "world \<Rightarrow> bool" where
  "wf_world s = (\<forall>a < length (hmaps s). valid_hmap s (hmaps s ! a))"

text \<open>\<^verbatim>\<open>v[i] = x\<close> on a slice: an assignment to an element of the backing array.\<close>

definition store_elem :: "world \<Rightarrow> slice \<Rightarrow> nat \<Rightarrow> string \<Rightarrow> world" where
  "store_elem s v i x =
     (if i < len v \<and> arr v < length (arrays s)
      then s\<lparr>arrays := (arrays s)[arr v := (arrays s ! arr v)[off v + i := x]]\<rparr>
      else s)"

text \<open>A JSON value that is neither an object nor \<^verbatim>\<open>null\<close>.\<close>

fun other_value :: "'n json \<Rightarrow> bool" where
  "other_value JNull = False"
| "other_value (JObject members) = False"
| "other_value v = True"

text \<open>The same environment with the origin answering every address with status \<open>f u\<close>.\<close>

definition answer_status :: "(string \<Rightarrow> nat) \<Rightarrow> 'n env \<Rightarrow> 'n env" where
  "answer_status f env =
     env\<lparr>origin_server :=
           (\<lambda>u. case origin_server env u of
                  Inl err \<Rightarrow> Inl err
                | Inr rep \<Rightarrow> Inr (rep\<lparr>reply_status := f u\<rparr>))\<rparr>"

subsection \<open>A concrete origin and library behaviour for the examples\<close>

definition example_origin :: "string \<Rightarrow> error + origin_reply" where
  \<open>example_origin u =
     (if u = ''http://origin/x'' then
        Inr \<lparr>reply_status = 200,
             reply_header = [(''Content-Type'', [''application/json''])],
             reply_body = ''{"a": 1}''\<rparr>
      else if u = ''http://origin/null'' then
        Inr \<lparr>reply_status = 200, reply_header = [], reply_body = ''null''\<rparr>
      else if u = ''http://origin/text'' then
        Inr \<lparr>reply_status = 200, reply_header = [], reply_body = ''not json''\<rparr>
      else if u = ''http://origin/list'' then
        Inr \<lparr>reply_status = 200, reply_header = [], reply_body = ''[1]''\<rparr>
      else if u = ''http://origin/gone'' then
        Inr \<lparr>reply_status = 404,
             reply_header = [(''Content-Type'', [''application/json''])],
             reply_body = ''{"a": 1}''\<rparr>
      else Inl ''dial tcp: connection refused'')\<close>

text \<open>What \<^verbatim>\<open>encoding/json\<close> does on the texts and values the examples use; every
  other text is an error here.\<close>

definition example_json_value :: "bytes \<Rightarrow> error + int json" where
  \<open>example_json_value b =
     (if b = ''{"a": 1}'' \<or> b = ''{"a":1}'' \<or> b = ''{"a":1}'' @ [CHR 0x0A]
        then Inr (JObject [(''a'', JNumber 1)])
      else if b = ''null'' then Inr JNull
      else if b = ''[1]'' then Inr (JArray [JNumber 1])
      else Inl ''invalid character'')\<close>

definition example_Marshal :: "int json \<Rightarrow> error + bytes" where
  \<open>example_Marshal v =
     (if v = JObject [(''a'', JNumber 1)] then Inr ''{"a":1}''
      else if v = JNull then Inr ''null''
      else Inl ''json: unsupported value'')\<close>

definition example_env :: "int env" where
  "example_env =
     \<lparr>origin_server = example_origin, json_value = example_json_value,
      json_Marshal = example_Marshal, time_Now = 7\<rparr>"

definition empty_world :: world where
  "empty_world = \<lparr>cache = Map.empty, arrays = [], hmaps = [], fetched = []\<rparr>"

definition new_writer :: ResponseWriter where
  "new_writer =
     \<lparr>handlerHeader = Map.empty, wroteHeader = False, status = 0,
      sentHeader = Map.empty, written = [], writeErr = None\<rparr>"

definition get :: "string \<Rightarrow> Request" where
  "get p = \<lparr>Method = ''GET'', URL = \<lparr>Path = p, RawQuery = []\<rparr>\<rparr>"

text \<open>The world after \<^verbatim>\<open>/x\<close> has been requested once from the empty cache.\<close>

definition example_entry :: CacheItem where
  \<open>example_entry = \<lparr>Response = ''{"a":1}'', Headers = Some 1, CachedAt = 7\<rparr>\<close>

definition warm_world :: world where
  "warm_world =
     \<lparr>cache = [''http://origin/x'' \<mapsto> example_entry],
      arrays = [[''application/json''], [''MISS'']],
      hmaps = [[''Content-Type'' \<mapsto> \<lparr>arr = 0, off = 0, len = 1\<rparr>],
               [''Content-Type'' \<mapsto> \<lparr>arr = 0, off = 0, len = 1\<rparr>]],
      fetched = [''http://origin/x'']\<rparr>"



definition example_object :: "int json" where
  "example_object = JObject [(''a'', JNumber 1)]"

section \<open>Properties\<close>

subsection \<open>The primitives\<close>

lemma slice_elems_extend:
  "arr v < length (arrays s) \<Longrightarrow> arrays s' = arrays s @ new \<Longrightarrow>
   slice_elems s' v = slice_elems s v"
  by (simp add: slice_elems_def nth_append)

lemma header_values_extend:
  assumes "valid_hmap s m" and "arrays s' = arrays s @ new"
  shows "header_values s' m = header_values s m"
proof
  fix k
  show "header_values s' m k = header_values s m k"
  proof (cases "m k")
    case None
    then show ?thesis by (simp add: header_values_def)
  next
    case (Some v)
    with assms(1) have "arr v < length (arrays s)" by (auto simp: valid_hmap_def)
    from slice_elems_extend [OF this assms(2)] Some show ?thesis
      by (simp add: header_values_def)
  qed
qed

lemma header_values_add:
  "header_values s (m1 ++ m2) = header_values s m1 ++ header_values s m2"
  by (rule ext) (simp add: header_values_def map_add_def split: option.split)

lemma header_values_upd:
  "header_values s (m(k \<mapsto> v)) = (header_values s m)(k \<mapsto> slice_elems s v)"
  by (rule ext) (simp add: header_values_def)

lemma Write_written: "written (fst (Write s w b)) = written w @ b"
  by (simp add: Write_def WriteHeader_def Let_def)

lemma Write_handlerHeader: "handlerHeader (fst (Write s w b)) = handlerHeader w"
  by (simp add: Write_def WriteHeader_def Let_def)

lemma Write_err: "snd (Write s w b) = writeErr w"
  by (simp add: Write_def WriteHeader_def Let_def)

lemma Write_writeErr: "writeErr (fst (Write s w b)) = writeErr w"
  by (simp add: Write_def WriteHeader_def Let_def)

lemma Write_wroteHeader: "wroteHeader (fst (Write s w b))"
  by (simp add: Write_def WriteHeader_def Let_def)

lemma Write_fresh:
  "\<not> wroteHeader w \<Longrightarrow>
   status (fst (Write s w b)) = StatusOK \<and>
   sentHeader (fst (Write s w b)) = header_values s (handlerHeader w)"
  by (simp add: Write_def WriteHeader_def Let_def)

lemma http_Error_world:
  "fst (http_Error s w msg code) =
     s\<lparr>arrays := arrays s @ [[''text/plain; charset=utf-8''], [''nosniff'']]\<rparr>"
  by (simp add: http_Error_def Header_Set_def)

lemma http_Error_written:
  "written (snd (http_Error s w msg code)) = written w @ msg @ [CHR 0x0A]"
  by (simp add: http_Error_def Header_Set_def Write_written WriteHeader_def)

lemma http_Error_status:
  "status (snd (http_Error s w msg code)) = (if wroteHeader w then status w else code)"
  by (simp add: http_Error_def Header_Set_def Write_def WriteHeader_def Let_def)

lemma alloc_values_arrays: "fst (alloc_values arrs kvs) = arrs @ map snd kvs"
proof (induction kvs arbitrary: arrs)
  case Nil
  show ?case by simp
next
  case (Cons kv kvs)
  obtain k vs where kv: "kv = (k, vs)" by (cases kv)
  from Cons.IH [of "arrs @ [vs]"] show ?case
    by (cases "alloc_values (arrs @ [vs]) kvs") (simp add: kv)
qed

lemma http_Get_fail:
  "origin_server env u = Inl err \<Longrightarrow>
   http_Get env s u = (s\<lparr>fetched := fetched s @ [u]\<rparr>, Inl err)"
  by (simp add: http_Get_def Let_def)

lemma http_Get_ok:
  "origin_server env u = Inr rep \<Longrightarrow>
   http_Get env s u =
     (s\<lparr>fetched := fetched s @ [u],
        arrays := arrays s @ map snd (reply_header rep),
        hmaps := hmaps s @ [snd (alloc_values (arrays s) (reply_header rep))]\<rparr>,
      Inr \<lparr>StatusCode = reply_status rep, Header = Some (length (hmaps s)),
           Body = reply_body rep\<rparr>)"
  using alloc_values_arrays [of "arrays s" "reply_header rep"]
  by (cases "alloc_values (arrays s) (reply_header rep)") (simp add: http_Get_def Let_def)

lemma header_values_cong:
  assumes "arrays s1 = arrays s2"
  shows "header_values s1 m = header_values s2 m"
proof -
  have "slice_elems s1 = slice_elems s2"
    by (rule ext) (simp add: slice_elems_def assms)
  then show ?thesis by (simp add: header_values_def)
qed

lemma alloc_values_view:
  "arrays S = fst (alloc_values arrs kvs) @ rest \<Longrightarrow>
   header_values S (snd (alloc_values arrs kvs)) = map_of kvs"
proof (induction kvs arbitrary: arrs)
  case Nil
  show ?case by (rule ext) (simp add: header_values_def)
next
  case (Cons kv kvs)
  obtain k vs where kv: "kv = (k, vs)" by (cases kv)
  obtain arrs' m where a: "alloc_values (arrs @ [vs]) kvs = (arrs', m)"
    by (cases "alloc_values (arrs @ [vs]) kvs")
  from Cons.prems have S: "arrays S = fst (alloc_values (arrs @ [vs]) kvs) @ rest"
    by (simp add: kv a)
  from Cons.IH [OF S] have ih: "header_values S m = map_of kvs"
    by (simp add: a)
  from S have "arrays S = arrs @ vs # map snd kvs @ rest"
    by (simp add: alloc_values_arrays)
  then have sl: "slice_elems S \<lparr>arr = length arrs, off = 0, len = length vs\<rparr> = vs"
    by (simp add: slice_elems_def nth_append)
  have lhs: "snd (alloc_values arrs (kv # kvs)) =
               m(k \<mapsto> \<lparr>arr = length arrs, off = 0, len = length vs\<rparr>)"
    by (simp add: kv a)
  have rhs: "map_of (kv # kvs) = (map_of kvs)(k \<mapsto> vs)"
    by (simp add: kv)
  show ?case
    unfolding lhs rhs header_values_upd ih sl ..
qed

subsection \<open>The paths through the handler\<close>

lemma HandleRequest_hit:
  assumes "cache s (origin @ Path (URL r)) = Some item"
  shows "HandleRequest env s w r origin =
           (s\<lparr>arrays := arrays s @ [[''HIT'']]\<rparr>,
            fst (Write (s\<lparr>arrays := arrays s @ [[''HIT'']]\<rparr>)
                   (w\<lparr>handlerHeader := (handlerHeader w ++ deref_map s (Headers item))
                         (''X-Cache'' \<mapsto> \<lparr>arr = length (arrays s), off = 0, len = 1\<rparr>)\<rparr>)
                   (Response item)))"
  using assms by (simp add: HandleRequest_def cache_lookup_def Header_Set_def)

lemma HandleRequest_fetch_failed:
  assumes "cache s (origin @ Path (URL r)) = None"
    and "origin_server env (origin @ Path (URL r)) = Inl err"
  shows "HandleRequest env s w r origin =
           http_Error (s\<lparr>fetched := fetched s @ [origin @ Path (URL r)]\<rparr>) w
             ''Error fetching from origin'' StatusBadGateway"
  using assms by (simp add: HandleRequest_def cache_lookup_def http_Get_fail)

lemma HandleRequest_decode_failed:
  assumes "cache s (origin @ Path (URL r)) = None"
    and "origin_server env (origin @ Path (URL r)) = Inr rep"
    and "json_Decoder_Decode env (reply_body rep) = Inl err"
  shows "HandleRequest env s w r origin =
           http_Error
             (s\<lparr>fetched := fetched s @ [origin @ Path (URL r)],
                arrays := arrays s @ map snd (reply_header rep),
                hmaps := hmaps s @ [snd (alloc_values (arrays s) (reply_header rep))]\<rparr>) w
             ''Error decoding response from origin'' StatusInternalServerError"
  using assms by (simp add: HandleRequest_def cache_lookup_def http_Get_ok)

lemma HandleRequest_stored:
  assumes "cache s (origin @ Path (URL r)) = None"
    and "origin_server env (origin @ Path (URL r)) = Inr rep"
    and "json_Decoder_Decode env (reply_body rep) = Inr data"
    and "json_Marshal env (map_value data) = Inr enc"
    and "writeErr w = None"
  shows "HandleRequest env s w r origin =
           (\<lparr>cache = (cache s)(origin @ Path (URL r) \<mapsto>
                        \<lparr>Response = enc, Headers = Some (Suc (length (hmaps s))),
                         CachedAt = time_Now env\<rparr>),
             arrays = arrays s @ map snd (reply_header rep) @ [[''MISS'']],
             hmaps = hmaps s @ [snd (alloc_values (arrays s) (reply_header rep)),
                                snd (alloc_values (arrays s) (reply_header rep))],
             fetched = fetched s @ [origin @ Path (URL r)]\<rparr>,
            fst (Write
                   (s\<lparr>fetched := fetched s @ [origin @ Path (URL r)],
                      hmaps := hmaps s @ [snd (alloc_values (arrays s) (reply_header rep))],
                      arrays := arrays s @ map snd (reply_header rep) @ [[''MISS'']]\<rparr>)
                   (w\<lparr>handlerHeader := (handlerHeader w)
                         (''X-Cache'' \<mapsto>
                            \<lparr>arr = length (arrays s) + length (reply_header rep),
                             off = 0, len = 1\<rparr>)\<rparr>)
                   (enc @ [CHR 0x0A])))"
  using assms
  by (simp add: HandleRequest_def cache_lookup_def http_Get_ok Header_Set_def
      json_Encoder_Encode_def make_Header_def copy_into_def deref_map_def
      cache_insert_def nth_append Let_def case_prod_beta Write_err)

lemma HandleRequest_encode_failed:
  assumes "cache s (origin @ Path (URL r)) = None"
    and "origin_server env (origin @ Path (URL r)) = Inr rep"
    and "json_Decoder_Decode env (reply_body rep) = Inr data"
    and "json_Marshal env (map_value data) = Inl err"
  shows "HandleRequest env s w r origin =
           http_Error
             (s\<lparr>fetched := fetched s @ [origin @ Path (URL r)],
                hmaps := hmaps s @ [snd (alloc_values (arrays s) (reply_header rep))],
                arrays := arrays s @ map snd (reply_header rep) @ [[''MISS'']]\<rparr>)
             (w\<lparr>handlerHeader := (handlerHeader w)
                   (''X-Cache'' \<mapsto>
                      \<lparr>arr = length (arrays s) + length (reply_header rep),
                       off = 0, len = 1\<rparr>)\<rparr>)
             ''Error encoding response'' StatusInternalServerError"
  using assms
  by (simp add: HandleRequest_def cache_lookup_def http_Get_ok Header_Set_def
      json_Encoder_Encode_def)

lemma HandleRequest_write_failed:
  assumes "cache s (origin @ Path (URL r)) = None"
    and "origin_server env (origin @ Path (URL r)) = Inr rep"
    and "json_Decoder_Decode env (reply_body rep) = Inr data"
    and "json_Marshal env (map_value data) = Inr enc"
    and "writeErr w = Some err"
  shows "HandleRequest env s w r origin =
           http_Error
             (s\<lparr>fetched := fetched s @ [origin @ Path (URL r)],
                hmaps := hmaps s @ [snd (alloc_values (arrays s) (reply_header rep))],
                arrays := arrays s @ map snd (reply_header rep) @ [[''MISS'']]\<rparr>)
             (fst (Write
                (s\<lparr>fetched := fetched s @ [origin @ Path (URL r)],
                   hmaps := hmaps s @ [snd (alloc_values (arrays s) (reply_header rep))],
                   arrays := arrays s @ map snd (reply_header rep) @ [[''MISS'']]\<rparr>)
                (w\<lparr>handlerHeader := (handlerHeader w)
                   (''X-Cache'' \<mapsto>
                      \<lparr>arr = length (arrays s) + length (reply_header rep),
                       off = 0, len = 1\<rparr>)\<rparr>)
                (enc @ [CHR 0x0A])))
             ''Error encoding response'' StatusInternalServerError"
  using assms
  by (simp add: HandleRequest_def cache_lookup_def http_Get_ok Header_Set_def
      json_Encoder_Encode_def case_prod_beta Write_err Let_def)

text \<open>Every miss calls the origin once, at the cache key.\<close>

lemma miss_fetches_once:
  assumes miss: "cache s (origin @ Path (URL r)) = None"
  shows "fetched (fst (HandleRequest env s w r origin)) = fetched s @ [origin @ Path (URL r)]"
proof (cases "origin_server env (origin @ Path (URL r))")
  case (Inl err)
  show ?thesis
    by (simp add: HandleRequest_fetch_failed [OF miss Inl] http_Error_world)
next
  case (Inr rep)
  show ?thesis
  proof (cases "json_Decoder_Decode env (reply_body rep)")
    case (Inl err)
    show ?thesis
      by (simp add: HandleRequest_decode_failed [OF miss Inr Inl] http_Error_world)
  next
    case data: (Inr data)
    show ?thesis
    proof (cases "json_Marshal env (map_value data)")
      case (Inl err)
      show ?thesis
        by (simp add: HandleRequest_encode_failed [OF miss Inr data Inl] http_Error_world)
    next
      case enc: (Inr enc)
      show ?thesis
      proof (cases "writeErr w")
        case None
        show ?thesis
          by (simp add: HandleRequest_stored [OF miss Inr data enc None])
      next
        case (Some err)
        show ?thesis
          by (simp add: HandleRequest_write_failed [OF miss Inr data enc Some] http_Error_world)
      qed
    qed
  qed
qed



subsection \<open>Well-formed stores\<close>

text \<open>The handler keeps the store well formed: it only appends arrays and header maps, and
  the slices of a new map point at arrays allocated with it.\<close>

lemma valid_hmap_empty: "valid_hmap s Map.empty"
  by (simp add: valid_hmap_def)

lemma wf_world_deref: "wf_world s \<Longrightarrow> valid_hmap s (deref_map s h)"
  by (cases h) (simp_all add: deref_map_def wf_world_def valid_hmap_empty)

lemma valid_hmap_extend:
  "valid_hmap s m \<Longrightarrow> arrays s' = arrays s @ new \<Longrightarrow> valid_hmap s' m"
  by (fastforce simp: valid_hmap_def)

lemma alloc_values_valid:
  "arrays S = fst (alloc_values arrs kvs) @ rest \<Longrightarrow> valid_hmap S (snd (alloc_values arrs kvs))"
proof (induction kvs arbitrary: arrs)
  case Nil
  show ?case by (simp add: valid_hmap_empty)
next
  case (Cons kv kvs)
  obtain k vs where kv: "kv = (k, vs)" by (cases kv)
  obtain arrs' m where a: "alloc_values (arrs @ [vs]) kvs = (arrs', m)"
    by (cases "alloc_values (arrs @ [vs]) kvs")
  from Cons.prems have S: "arrays S = fst (alloc_values (arrs @ [vs]) kvs) @ rest"
    by (simp add: kv a)
  from Cons.IH [OF S] have ih: "valid_hmap S m"
    by (simp add: a)
  from S have "length arrs < length (arrays S)"
    by (simp add: alloc_values_arrays)
  with ih show ?case
    by (simp add: kv a valid_hmap_def)
qed

lemma wf_world_grow:
  assumes wf: "wf_world s"
    and arrs: "arrays s' = arrays s @ new"
    and maps: "hmaps s' = hmaps s @ ms"
    and new: "\<forall>m \<in> set ms. valid_hmap s' m"
  shows "wf_world s'"
  unfolding wf_world_def
proof (intro allI impI)
  fix a
  assume a: "a < length (hmaps s')"
  show "valid_hmap s' (hmaps s' ! a)"
  proof (cases "a < length (hmaps s)")
    case True
    with wf have "valid_hmap s (hmaps s ! a)" by (simp add: wf_world_def)
    from valid_hmap_extend [OF this arrs] True show ?thesis
      by (simp add: maps nth_append)
  next
    case False
    with a have "hmaps s' ! a \<in> set ms"
      by (simp add: maps nth_append)
    with new show ?thesis by blast
  qed
qed

lemma wf_world_empty: "wf_world empty_world"
  by (simp add: wf_world_def empty_world_def)

lemma wf_world_HandleRequest:
  assumes wf: "wf_world s"
  shows "wf_world (fst (HandleRequest env s w r origin))"
proof (cases "cache s (origin @ Path (URL r))")
  case (Some item)
  show ?thesis
    by (rule wf_world_grow [OF wf, where new = "[[''HIT'']]" and ms = "[]"])
      (simp_all add: HandleRequest_hit [OF Some])
next
  case miss: None
  show ?thesis
  proof (cases "origin_server env (origin @ Path (URL r))")
    case (Inl err)
    show ?thesis
      by (rule wf_world_grow [OF wf,
            where new = "[[''text/plain; charset=utf-8''], [''nosniff'']]" and ms = "[]"])
        (simp_all add: HandleRequest_fetch_failed [OF miss Inl] http_Error_world)
  next
    case (Inr rep)
    let ?m = "snd (alloc_values (arrays s) (reply_header rep))"
    have m: "valid_hmap S ?m" if "arrays S = arrays s @ map snd (reply_header rep) @ rest"
      for S :: world and rest
      using that by (intro alloc_values_valid [where rest = rest]) (simp add: alloc_values_arrays)
    show ?thesis
    proof (cases "json_Decoder_Decode env (reply_body rep)")
      case (Inl err)
      show ?thesis
        by (rule wf_world_grow [OF wf,
              where new = "map snd (reply_header rep) @
                           [[''text/plain; charset=utf-8''], [''nosniff'']]"
                and ms = "[?m]"])
          (simp_all add: HandleRequest_decode_failed [OF miss Inr Inl] http_Error_world m)
    next
      case data: (Inr data)
      show ?thesis
      proof (cases "json_Marshal env (map_value data)")
        case (Inl err)
        show ?thesis
          by (rule wf_world_grow [OF wf,
                where new = "map snd (reply_header rep) @ [[''MISS'']] @
                             [[''text/plain; charset=utf-8''], [''nosniff'']]"
                  and ms = "[?m]"])
            (simp_all add: HandleRequest_encode_failed [OF miss Inr data Inl] http_Error_world m)
      next
        case enc: (Inr enc)
        show ?thesis
        proof (cases "writeErr w")
          case None
          show ?thesis
            by (rule wf_world_grow [OF wf,
                  where new = "map snd (reply_header rep) @ [[''MISS'']]" and ms = "[?m, ?m]"])
              (simp_all add: HandleRequest_stored [OF miss Inr data enc None] m)
        next
          case (Some err)
          show ?thesis
            by (rule wf_world_grow [OF wf,
                  where new = "map snd (reply_header rep) @ [[''MISS'']] @
                               [[''text/plain; charset=utf-8''], [''nosniff'']]"
                    and ms = "[?m]"])
              (simp_all add: HandleRequest_write_failed [OF miss Inr data enc Some]
                http_Error_world m)
        qed
      qed
    qed
  qed
qed

lemma wf_world_serve: "wf_world s \<Longrightarrow> wf_world (serve origin s reqs)"
proof (induction reqs arbitrary: s)
  case Nil
  then show ?case by simp
next
  case (Cons q reqs)
  obtain env w r where q: "q = (env, w, r)" by (cases q)
  from Cons.prems have "wf_world (fst (HandleRequest env s w r origin))"
    by (rule wf_world_HandleRequest)
  from Cons.IH [OF this] show ?case by (simp add: q)
qed

subsection \<open>The example\<close>

text \<open>The example world \<open>warm_world\<close> is what the first request for \<^verbatim>\<open>/x\<close> leaves.\<close>

lemma first_request_warms:
  "fst (HandleRequest example_env empty_world new_writer (get ''/x'') ''http://origin'')
     = warm_world"
proof -
  have h1: "cache empty_world (''http://origin'' @ Path (URL (get ''/x''))) = None"
    by (simp add: empty_world_def)
  have h2: \<open>origin_server example_env (''http://origin'' @ Path (URL (get ''/x''))) =
      Inr \<lparr>reply_status = 200,
              reply_header = [(''Content-Type'', [''application/json''])],
              reply_body = ''{"a": 1}''\<rparr>\<close>
    by (simp add: example_env_def example_origin_def get_def)
  have h3: \<open>json_Decoder_Decode example_env (reply_body \<lparr>reply_status = 200,
              reply_header = [(''Content-Type'', [''application/json''])],
              reply_body = ''{"a": 1}''\<rparr>) = Inr (Some [(''a'', JNumber 1)])\<close>
    by (simp add: json_Decoder_Decode_def example_env_def example_json_value_def)
  have h4: \<open>json_Marshal example_env (map_value (Some [(''a'', JNumber 1)])) = Inr ''{"a":1}''\<close>
    by (simp add: map_value_def example_env_def example_Marshal_def)
  have h5: "writeErr new_writer = None"
    by (simp add: new_writer_def)
  show ?thesis
    unfolding HandleRequest_stored [OF h1 h2 h3 h4 h5]
    by (simp add: warm_world_def empty_world_def get_def example_entry_def example_env_def)
qed

lemma example_facts:
  "cache empty_world (''http://origin'' @ Path (URL (get ''/x''))) = None"
  \<open>origin_server example_env (''http://origin'' @ Path (URL (get ''/x''))) =
     Inr \<lparr>reply_status = 200,
          reply_header = [(''Content-Type'', [''application/json''])],
          reply_body = ''{"a": 1}''\<rparr>\<close>
  \<open>json_value example_env
     (reply_body \<lparr>reply_status = 200,
          reply_header = [(''Content-Type'', [''application/json''])],
          reply_body = ''{"a": 1}''\<rparr>) = Inr (JObject [(''a'', JNumber 1)])\<close>
  \<open>json_Marshal example_env (JObject [(''a'', JNumber 1)]) = Inr ''{"a":1}''\<close>
  \<open>json_value example_env ''{"a":1}'' = Inr (JObject [(''a'', JNumber 1)])\<close>
  \<open>json_value example_env (''{"a":1}'' @ [CHR 0x0A]) = Inr (JObject [(''a'', JNumber 1)])\<close>
  "writeErr new_writer = None"
  "written new_writer = []"
  "\<not> wroteHeader new_writer"
  by (simp_all add: empty_world_def example_env_def example_origin_def get_def
      example_json_value_def example_Marshal_def new_writer_def)

subsection \<open>Cache hits\<close>

text \<open>
  Claim C1. When the cache key of a request (the origin address followed by the path of
  the request) is in the cache, the handler assigns every header of the entry to the
  response, sets \<^verbatim>\<open>X-Cache\<close> to \<^verbatim>\<open>HIT\<close>, hands the stored body to the writer as it
  is, and returns: \<^verbatim>\<open>http.Get\<close> is not called, the cache map and the objects of the
  store stay as they were (the store only gains the array of the marker). On a writer that
  has not sent its header yet the status is 200 and the headers sent are those just set.
\<close>

theorem hit_served_from_cache:
  assumes hit: "cache s (origin @ Path (URL r)) = Some item"
    and wf: "wf_world s"
    and vw: "valid_hmap s (handlerHeader w)"
    and res: "HandleRequest env s w r origin = (s', w')"
  shows "header_values s' (handlerHeader w') =
           (header_values s (handlerHeader w) ++ header_values s (deref_map s (Headers item)))
             (''X-Cache'' \<mapsto> [''HIT''])
       \<and> written w' = written w @ Response item
       \<and> (\<not> wroteHeader w \<longrightarrow>
            status w' = StatusOK \<and> sentHeader w' = header_values s' (handlerHeader w'))
       \<and> fetched s' = fetched s
       \<and> cache s' = cache s \<and> hmaps s' = hmaps s
       \<and> take (length (arrays s)) (arrays s') = arrays s"
proof -
  let ?s1 = "s\<lparr>arrays := arrays s @ [[''HIT'']]\<rparr>"
  let ?h = "(handlerHeader w ++ deref_map s (Headers item))
              (''X-Cache'' \<mapsto> \<lparr>arr = length (arrays s), off = 0, len = 1\<rparr>)"
  from HandleRequest_hit [OF hit, of env w] res
  have s': "s' = ?s1" and w': "w' = fst (Write ?s1 (w\<lparr>handlerHeader := ?h\<rparr>) (Response item))"
    by simp_all
  have ext: "arrays ?s1 = arrays s @ [[''HIT'']]" by simp
  note vc = wf_world_deref [OF wf, of "Headers item"]
  have hh: "handlerHeader w' = ?h" by (simp add: w' Write_handlerHeader)
  have "header_values ?s1 ?h =
          (header_values ?s1 (handlerHeader w) ++ header_values ?s1 (deref_map s (Headers item)))
            (''X-Cache'' \<mapsto> [''HIT''])"
    by (simp add: header_values_upd header_values_add slice_elems_def)
  then have 1: "header_values s' (handlerHeader w') =
           (header_values s (handlerHeader w) ++ header_values s (deref_map s (Headers item)))
             (''X-Cache'' \<mapsto> [''HIT''])"
    by (simp only: hh s' header_values_extend [OF vw ext] header_values_extend [OF vc ext])
  have 2: "written w' = written w @ Response item" by (simp add: w' Write_written)
  have 3: "\<not> wroteHeader w \<longrightarrow>
            status w' = StatusOK \<and> sentHeader w' = header_values s' (handlerHeader w')"
    using Write_fresh [of "w\<lparr>handlerHeader := ?h\<rparr>" ?s1 "Response item"]
    by (simp add: w' s' hh Write_handlerHeader)
  show ?thesis using 1 2 3 by (simp add: s')
qed

theorem hit_served_from_cache_witness:
  \<open>cache warm_world (''http://origin'' @ Path (URL (get ''/x''))) = Some example_entry
   \<and> wf_world warm_world
   \<and> valid_hmap warm_world (handlerHeader new_writer)
   \<and> written (snd (HandleRequest example_env warm_world new_writer (get ''/x'') ''http://origin''))
       = ''{"a":1}''
   \<and> status (snd (HandleRequest example_env warm_world new_writer (get ''/x'') ''http://origin''))
       = 200
   \<and> sentHeader (snd (HandleRequest example_env warm_world new_writer (get ''/x'') ''http://origin''))
       = [''Content-Type'' \<mapsto> [''application/json''], ''X-Cache'' \<mapsto> [''HIT'']]
   \<and> fetched (fst (HandleRequest example_env warm_world new_writer (get ''/x'') ''http://origin''))
       = fetched warm_world
   \<and> cache (fst (HandleRequest example_env warm_world new_writer (get ''/x'') ''http://origin''))
       = cache warm_world\<close>
proof -
  have h1: "cache warm_world (''http://origin'' @ Path (URL (get ''/x''))) = Some example_entry"
    by (simp add: warm_world_def get_def)
  have h2: "wf_world warm_world"
    using wf_world_HandleRequest
            [OF wf_world_empty, of example_env new_writer "get ''/x''" "''http://origin''"]
    by (simp only: first_request_warms)
  have h3: "valid_hmap warm_world (handlerHeader new_writer)"
    by (simp add: valid_hmap_def new_writer_def)
  have v: "header_values warm_world (handlerHeader new_writer) ++
           header_values warm_world (deref_map warm_world (Headers example_entry))
           = [''Content-Type'' \<mapsto> [''application/json'']]"
    by (rule ext)
      (simp add: header_values_def new_writer_def deref_map_def example_entry_def warm_world_def
        slice_elems_def map_add_def)
  from hit_served_from_cache [OF h1 h2 h3 surjective_pairing, of example_env] h1 h2 h3 v
  show ?thesis
    by (simp add: new_writer_def example_entry_def StatusOK_def)
qed

subsection \<open>The cache map\<close>

text \<open>
  Claim C7. An insert for a key that already holds an entry replaces that entry: the
  lookup of the key then returns the entry just inserted, with \<^verbatim>\<open>found\<close> true, and the
  lookup of any other key returns what it returned before.
\<close>

theorem later_insert_replaces:
  assumes "c key = Some e1"
  shows "cache_lookup (cache_insert c key e2) key = (e2, True)
       \<and> (\<forall>key'. key' \<noteq> key \<longrightarrow>
            cache_lookup (cache_insert c key e2) key' = cache_lookup c key')"
  by (simp add: cache_lookup_def cache_insert_def)

theorem later_insert_replaces_witness:
  "cache warm_world ''http://origin/x'' = Some example_entry
   \<and> cache_lookup (cache_insert (cache warm_world) ''http://origin/x'' zero_CacheItem)
        ''http://origin/x'' = (zero_CacheItem, True)
   \<and> cache_lookup (cache_insert (cache warm_world) ''http://origin/x'' zero_CacheItem)
        ''http://origin/y'' = (zero_CacheItem, False)"
proof -
  have h: "cache warm_world ''http://origin/x'' = Some example_entry"
    by (simp add: warm_world_def)
  note t = later_insert_replaces
         [of "cache warm_world" "''http://origin/x''" example_entry zero_CacheItem, OF h]
  from t have a: "cache_lookup (cache_insert (cache warm_world) ''http://origin/x'' zero_CacheItem)
        ''http://origin/x'' = (zero_CacheItem, True)"
    by blast
  from t have "cache_lookup (cache_insert (cache warm_world) ''http://origin/x'' zero_CacheItem)
        ''http://origin/y'' = cache_lookup (cache warm_world) ''http://origin/y''"
    by simp
  also have "\<dots> = (zero_CacheItem, False)"
    by (simp add: cache_lookup_def warm_world_def)
  finally show ?thesis using h a by blast
qed

subsection \<open>The origin cannot be reached\<close>

text \<open>
  Claim C4. When the key is not cached and \<^verbatim>\<open>http.Get\<close> returns an error, the client
  gets status 502 (bad gateway) with the message of the handler, and the request ends
  there: the cache map is the one before the request, no header map of the store is
  touched and no existing array is changed. The one fetch is the failed one.
\<close>

theorem fetch_failure_is_bad_gateway:
  assumes miss: "cache s (origin @ Path (URL r)) = None"
    and fail: "origin_server env (origin @ Path (URL r)) = Inl err"
    and fresh: "\<not> wroteHeader w"
    and res: "HandleRequest env s w r origin = (s', w')"
  shows "status w' = StatusBadGateway
       \<and> written w' = written w @ ''Error fetching from origin'' @ [CHR 0x0A]
       \<and> cache s' = cache s \<and> hmaps s' = hmaps s
       \<and> take (length (arrays s)) (arrays s') = arrays s
       \<and> fetched s' = fetched s @ [origin @ Path (URL r)]"
proof -
  from res have s': "s' = fst (HandleRequest env s w r origin)"
    and w': "w' = snd (HandleRequest env s w r origin)"
    by simp_all
  note path = HandleRequest_fetch_failed [OF miss fail, of w]
  show ?thesis
    using fresh
    by (simp add: s' w' path http_Error_world http_Error_written http_Error_status)
qed

theorem fetch_failure_is_bad_gateway_witness:
  "cache warm_world (''http://origin'' @ Path (URL (get ''/down''))) = None
   \<and> origin_server example_env (''http://origin'' @ Path (URL (get ''/down'')))
       = Inl ''dial tcp: connection refused''
   \<and> \<not> wroteHeader new_writer
   \<and> status (snd (HandleRequest example_env warm_world new_writer (get ''/down'') ''http://origin''))
       = 502
   \<and> cache (fst (HandleRequest example_env warm_world new_writer (get ''/down'') ''http://origin''))
       = cache warm_world
   \<and> hmaps (fst (HandleRequest example_env warm_world new_writer (get ''/down'') ''http://origin''))
       = hmaps warm_world
   \<and> fetched (fst (HandleRequest example_env warm_world new_writer (get ''/down'') ''http://origin''))
       = [''http://origin/x'', ''http://origin/down'']"
proof -
  have h1: "cache warm_world (''http://origin'' @ Path (URL (get ''/down''))) = None"
    by (simp add: warm_world_def get_def)
  have h2: "origin_server example_env (''http://origin'' @ Path (URL (get ''/down'')))
              = Inl ''dial tcp: connection refused''"
    by (simp add: example_env_def example_origin_def get_def)
  have h3: "\<not> wroteHeader new_writer"
    by (simp add: new_writer_def)
  from fetch_failure_is_bad_gateway [OF h1 h2 h3 surjective_pairing] h1 h2 h3
  show ?thesis
    by (simp add: StatusBadGateway_def warm_world_def get_def)
qed

subsection \<open>The body of the origin does not decode\<close>

lemma Decode_object:
  "json_value env b = Inr (JObject members) \<Longrightarrow> json_Decoder_Decode env b = Inr (Some members)"
  by (simp add: json_Decoder_Decode_def)

lemma Decode_rejects:
  assumes "case json_value env b of Inl e \<Rightarrow> True | Inr v \<Rightarrow> other_value v"
  shows "\<exists>err. json_Decoder_Decode env b = Inl err"
proof (cases "json_value env b")
  case (Inl e)
  then show ?thesis by (simp add: json_Decoder_Decode_def)
next
  case (Inr v)
  with assms have "other_value v" by simp
  with Inr show ?thesis by (cases v) (simp_all add: json_Decoder_Decode_def)
qed

text \<open>
  Claim C3, as the handler has it. When the key is not cached, the origin answers, and the
  body has no well-formed first JSON value or its first value is neither an object nor
  \<^verbatim>\<open>null\<close>, the client gets status 500 (internal server error) and nothing is cached:
  the cache map is unchanged, the objects of the store are unchanged, and the next
  request for the same path misses again and goes to the origin a second time.
\<close>

theorem undecodable_body_is_internal_error:
  assumes miss: "cache s (origin @ Path (URL r)) = None"
    and reply: "origin_server env (origin @ Path (URL r)) = Inr rep"
    and bad: "case json_value env (reply_body rep) of Inl e \<Rightarrow> True | Inr v \<Rightarrow> other_value v"
    and fresh: "\<not> wroteHeader w"
    and res: "HandleRequest env s w r origin = (s', w')"
    and same: "Path (URL r2) = Path (URL r)"
  shows "status w' = StatusInternalServerError
       \<and> written w' = written w @ ''Error decoding response from origin'' @ [CHR 0x0A]
       \<and> cache s' = cache s
       \<and> take (length (hmaps s)) (hmaps s') = hmaps s
       \<and> take (length (arrays s)) (arrays s') = arrays s
       \<and> cache_lookup (cache s') (origin @ Path (URL r2)) = (zero_CacheItem, False)
       \<and> fetched (fst (HandleRequest env2 s' w2 r2 origin)) =
           fetched s @ [origin @ Path (URL r), origin @ Path (URL r)]"
proof -
  from res have s': "s' = fst (HandleRequest env s w r origin)"
    and w': "w' = snd (HandleRequest env s w r origin)"
    by simp_all
  from Decode_rejects [OF bad] obtain err
    where "json_Decoder_Decode env (reply_body rep) = Inl err" ..
  note path = HandleRequest_decode_failed [OF miss reply this, of w]
  have c: "cache s' = cache s"
    by (simp add: s' path http_Error_world)
  have f: "fetched s' = fetched s @ [origin @ Path (URL r)]"
    by (simp add: s' path http_Error_world)
  from c miss same have miss2: "cache s' (origin @ Path (URL r2)) = None"
    by simp
  from miss_fetches_once [OF miss2, of env2 w2] f same
  have again: "fetched (fst (HandleRequest env2 s' w2 r2 origin)) =
                 fetched s @ [origin @ Path (URL r), origin @ Path (URL r)]"
    by simp
  have rest: "status w' = StatusInternalServerError
       \<and> written w' = written w @ ''Error decoding response from origin'' @ [CHR 0x0A]
       \<and> take (length (hmaps s)) (hmaps s') = hmaps s
       \<and> take (length (arrays s)) (arrays s') = arrays s"
    using fresh
    by (simp add: s' w' path http_Error_world http_Error_written http_Error_status)
  from miss2 have "cache_lookup (cache s') (origin @ Path (URL r2)) = (zero_CacheItem, False)"
    by (simp add: cache_lookup_def)
  with rest c again show ?thesis by simp
qed

theorem undecodable_body_is_internal_error_witness:
  "cache empty_world (''http://origin'' @ Path (URL (get ''/text''))) = None
   \<and> origin_server example_env (''http://origin'' @ Path (URL (get ''/text'')))
       = Inr \<lparr>reply_status = 200, reply_header = [], reply_body = ''not json''\<rparr>
   \<and> (case json_value example_env
              (reply_body \<lparr>reply_status = 200, reply_header = [], reply_body = ''not json''\<rparr>) of
         Inl e \<Rightarrow> True | Inr v \<Rightarrow> other_value v)
   \<and> \<not> wroteHeader new_writer
   \<and> Path (URL (get ''/text'')) = Path (URL (get ''/text''))
   \<and> status (snd (HandleRequest example_env empty_world new_writer (get ''/text'') ''http://origin''))
       = 500
   \<and> cache (fst (HandleRequest example_env empty_world new_writer (get ''/text'') ''http://origin''))
       = Map.empty
   \<and> fetched (fst (HandleRequest example_env
         (fst (HandleRequest example_env empty_world new_writer (get ''/text'') ''http://origin''))
         new_writer (get ''/text'') ''http://origin''))
       = [''http://origin/text'', ''http://origin/text'']
   \<and> cache empty_world (''http://origin'' @ Path (URL (get ''/list''))) = None
   \<and> origin_server example_env (''http://origin'' @ Path (URL (get ''/list'')))
       = Inr \<lparr>reply_status = 200, reply_header = [], reply_body = ''[1]''\<rparr>
   \<and> json_value example_env ''[1]'' = Inr (JArray [JNumber 1])
   \<and> other_value (JArray [JNumber (1::int)])
   \<and> status (snd (HandleRequest example_env empty_world new_writer (get ''/list'') ''http://origin''))
       = 500
   \<and> cache (fst (HandleRequest example_env empty_world new_writer (get ''/list'') ''http://origin''))
       = Map.empty"
proof -
  have l1: "cache empty_world (''http://origin'' @ Path (URL (get ''/list''))) = None"
    by (simp add: empty_world_def)
  have l2: "origin_server example_env (''http://origin'' @ Path (URL (get ''/list'')))
       = Inr \<lparr>reply_status = 200, reply_header = [], reply_body = ''[1]''\<rparr>"
    by (simp add: example_env_def example_origin_def get_def)
  have l3: "json_value example_env ''[1]'' = Inr (JArray [JNumber 1])"
    by (simp add: example_env_def example_json_value_def)
  then have l4: "case json_value example_env
              (reply_body \<lparr>reply_status = 200, reply_header = [], reply_body = ''[1]''\<rparr>) of
         Inl e \<Rightarrow> True | Inr v \<Rightarrow> other_value v"
    by simp
  have l5: "other_value (JArray [JNumber (1::int)])"
    by simp
  have h1: "cache empty_world (''http://origin'' @ Path (URL (get ''/text''))) = None"
    by (simp add: empty_world_def)
  have h2: "origin_server example_env (''http://origin'' @ Path (URL (get ''/text'')))
       = Inr \<lparr>reply_status = 200, reply_header = [], reply_body = ''not json''\<rparr>"
    by (simp add: example_env_def example_origin_def get_def)
  have h3: "case json_value example_env
              (reply_body \<lparr>reply_status = 200, reply_header = [], reply_body = ''not json''\<rparr>) of
         Inl e \<Rightarrow> True | Inr v \<Rightarrow> other_value v"
    by (simp add: example_env_def example_json_value_def)
  have h4: "\<not> wroteHeader new_writer"
    by (simp add: new_writer_def)
  from undecodable_body_is_internal_error
         [OF h1 h2 h3 h4 surjective_pairing refl, of example_env new_writer]
  have a: "status (snd (HandleRequest example_env empty_world new_writer (get ''/text'')
                    ''http://origin'')) = 500
   \<and> cache (fst (HandleRequest example_env empty_world new_writer (get ''/text'')
                    ''http://origin'')) = Map.empty
   \<and> fetched (fst (HandleRequest example_env
         (fst (HandleRequest example_env empty_world new_writer (get ''/text'') ''http://origin''))
         new_writer (get ''/text'') ''http://origin''))
       = [''http://origin/text'', ''http://origin/text'']"
    by (simp add: StatusInternalServerError_def empty_world_def get_def)
  from undecodable_body_is_internal_error
         [OF l1 l2 l4 h4 surjective_pairing refl, of example_env new_writer]
  have b: "status (snd (HandleRequest example_env empty_world new_writer (get ''/list'')
                    ''http://origin'')) = 500
   \<and> cache (fst (HandleRequest example_env empty_world new_writer (get ''/list'')
                    ''http://origin'')) = Map.empty"
    by (simp add: StatusInternalServerError_def empty_world_def)
  from h1 h2 h3 h4 a l1 l2 l3 l5 b show ?thesis by blast
qed

text \<open>For any scanner and encoder: a first value \<^verbatim>\<open>null\<close> is decoded without an
  error, answered with status 200 and stored.\<close>

lemma null_first_value_is_stored:
  assumes miss: "cache s (origin @ Path (URL r)) = None"
    and reply: "origin_server env (origin @ Path (URL r)) = Inr rep"
    and null: "json_value env (reply_body rep) = Inr JNull"
    and enc: "json_Marshal env JNull = Inr enc"
    and ok: "writeErr w = None"
    and fresh: "\<not> wroteHeader w"
  shows "status (snd (HandleRequest env s w r origin)) = StatusOK
       \<and> written (snd (HandleRequest env s w r origin)) = written w @ enc @ [CHR 0x0A]
       \<and> map_option Response (cache (fst (HandleRequest env s w r origin)) (origin @ Path (URL r)))
           = Some enc"
proof -
  from null have data: "json_Decoder_Decode env (reply_body rep) = Inr None"
    by (simp add: json_Decoder_Decode_def)
  from enc have enc': "json_Marshal env (map_value None) = Inr enc"
    by (simp add: map_value_def)
  show ?thesis
    using fresh
    by (simp add: HandleRequest_stored [OF miss reply data enc' ok] Write_fresh Write_written)
qed

text \<open>
  The claim as it is stated also covers a first value that is \<^verbatim>\<open>null\<close>, which is not an
  object. Decoding \<^verbatim>\<open>null\<close> into a map reports no error and leaves the map nil: the
  handler answers 200 with the body \<^verbatim>\<open>null\<close> and caches it.
\<close>

theorem null_body_is_served_and_stored:
  "cache empty_world (''http://origin'' @ Path (URL (get ''/null''))) = None
   \<and> origin_server example_env (''http://origin'' @ Path (URL (get ''/null'')))
       = Inr \<lparr>reply_status = 200, reply_header = [], reply_body = ''null''\<rparr>
   \<and> json_value example_env ''null'' = Inr JNull
   \<and> status (snd (HandleRequest example_env empty_world new_writer (get ''/null'') ''http://origin''))
       = 200
   \<and> written (snd (HandleRequest example_env empty_world new_writer (get ''/null'') ''http://origin''))
       = ''null'' @ [CHR 0x0A]
   \<and> cache (fst (HandleRequest example_env empty_world new_writer (get ''/null'') ''http://origin''))
        ''http://origin/null''
       = Some \<lparr>Response = ''null'', Headers = Some 1, CachedAt = 7\<rparr>"
proof -
  have h1: "cache empty_world (''http://origin'' @ Path (URL (get ''/null''))) = None"
    by (simp add: empty_world_def)
  have h2: "origin_server example_env (''http://origin'' @ Path (URL (get ''/null'')))
       = Inr \<lparr>reply_status = 200, reply_header = [], reply_body = ''null''\<rparr>"
    by (simp add: example_env_def example_origin_def get_def)
  have h3: "json_value example_env ''null'' = Inr JNull"
    by (simp add: example_env_def example_json_value_def)
  have h4: "json_Decoder_Decode example_env
              (reply_body \<lparr>reply_status = 200, reply_header = [], reply_body = ''null''\<rparr>)
            = Inr None"
    by (simp add: json_Decoder_Decode_def h3)
  have h5: "json_Marshal example_env (map_value None) = Inr ''null''"
    by (simp add: map_value_def example_env_def example_Marshal_def)
  have h6: "writeErr new_writer = None"
    by (simp add: new_writer_def)
  note path = HandleRequest_stored [OF h1 h2 h4 h5 h6]
  have fresh: "\<not> wroteHeader (new_writer\<lparr>handlerHeader := X\<rparr>)" for X
    by (simp add: new_writer_def)
  have a: "status (snd (HandleRequest example_env empty_world new_writer (get ''/null'')
             ''http://origin'')) = 200"
    unfolding path by (simp add: Write_fresh [OF fresh] StatusOK_def)
  have b: "written (snd (HandleRequest example_env empty_world new_writer (get ''/null'')
             ''http://origin'')) = ''null'' @ [CHR 0x0A]"
    unfolding path by (simp add: Write_written new_writer_def)
  have c: "cache (fst (HandleRequest example_env empty_world new_writer (get ''/null'')
             ''http://origin'')) ''http://origin/null''
           = Some \<lparr>Response = ''null'', Headers = Some 1, CachedAt = 7\<rparr>"
    unfolding path by (simp add: get_def example_env_def empty_world_def)
  from h1 h2 h3 a b c show ?thesis by blast
qed

subsection \<open>Cache misses\<close>

text \<open>
  Claim C2, as the handler has it. When the cache key of a request is not in the cache,
  the handler calls \<^verbatim>\<open>http.Get\<close> exactly once, with the origin address followed by
  the path; neither the query string nor the method of the request plays a part. When
  that fetch succeeds, the body decodes, the encoding succeeds and the write on the client
  connection succeeds, the response carries \<^verbatim>\<open>X-Cache: MISS\<close>, the bytes written are
  the re-encoded JSON followed by a newline, and a new entry is stored under the key: the
  re-encoded body, a new header map with the headers of the origin's response, and the
  current time.
\<close>

theorem miss_fetches_and_stores:
  assumes miss: "cache s (origin @ Path (URL r)) = None"
    and res: "HandleRequest env s w r origin = (s', w')"
  shows "fetched s' = fetched s @ [origin @ Path (URL r)]
       \<and> HandleRequest env s w (r\<lparr>Method := m, URL := (URL r)\<lparr>RawQuery := q\<rparr>\<rparr>) origin = (s', w')
       \<and> (origin_server env (origin @ Path (URL r)) = Inr rep
          \<and> json_Decoder_Decode env (reply_body rep) = Inr data
          \<and> json_Marshal env (map_value data) = Inr enc
          \<and> writeErr w = None \<longrightarrow>
            header_values s' (handlerHeader w') ''X-Cache'' = Some [''MISS'']
          \<and> written w' = written w @ enc @ [CHR 0x0A]
          \<and> (\<not> wroteHeader w \<longrightarrow>
               status w' = StatusOK \<and> sentHeader w' = header_values s' (handlerHeader w'))
          \<and> cache s' = (cache s)(origin @ Path (URL r) \<mapsto>
                          \<lparr>Response = enc, Headers = Some (Suc (length (hmaps s))),
                           CachedAt = time_Now env\<rparr>)
          \<and> header_values s' (deref_map s' (Some (Suc (length (hmaps s))))) =
              map_of (reply_header rep))"
proof -
  from res have s': "s' = fst (HandleRequest env s w r origin)"
    and w': "w' = snd (HandleRequest env s w r origin)"
    by simp_all
  have 1: "fetched s' = fetched s @ [origin @ Path (URL r)]"
    unfolding s' by (rule miss_fetches_once [OF miss])
  have 2: "HandleRequest env s w (r\<lparr>Method := m, URL := (URL r)\<lparr>RawQuery := q\<rparr>\<rparr>) origin = (s', w')"
    using res by (simp add: HandleRequest_def)
  have 3: "header_values s' (handlerHeader w') ''X-Cache'' = Some [''MISS'']
          \<and> written w' = written w @ enc @ [CHR 0x0A]
          \<and> (\<not> wroteHeader w \<longrightarrow>
               status w' = StatusOK \<and> sentHeader w' = header_values s' (handlerHeader w'))
          \<and> cache s' = (cache s)(origin @ Path (URL r) \<mapsto>
                          \<lparr>Response = enc, Headers = Some (Suc (length (hmaps s))),
                           CachedAt = time_Now env\<rparr>)
          \<and> header_values s' (deref_map s' (Some (Suc (length (hmaps s))))) =
              map_of (reply_header rep)"
    if reply: "origin_server env (origin @ Path (URL r)) = Inr rep"
      and data: "json_Decoder_Decode env (reply_body rep) = Inr data"
      and enc: "json_Marshal env (map_value data) = Inr enc"
      and ok: "writeErr w = None"
  proof -
    note path = HandleRequest_stored [OF miss reply data enc ok]
    let ?h = "(handlerHeader w)(''X-Cache'' \<mapsto>
                \<lparr>arr = length (arrays s) + length (reply_header rep), off = 0, len = 1\<rparr>)"
    have hh: "handlerHeader w' = ?h"
      by (simp add: w' path Write_handlerHeader)
    have arrs: "arrays s' = arrays s @ map snd (reply_header rep) @ [[''MISS'']]"
      by (simp add: s' path)
    have a: "header_values s' (handlerHeader w') ''X-Cache'' = Some [''MISS'']"
      by (simp add: hh header_values_def slice_elems_def arrs nth_append)
    have b: "written w' = written w @ enc @ [CHR 0x0A]"
      by (simp add: w' path Write_written)
    let ?S = "s\<lparr>fetched := fetched s @ [origin @ Path (URL r)],
                 hmaps := hmaps s @ [snd (alloc_values (arrays s) (reply_header rep))],
                 arrays := arrays s @ map snd (reply_header rep) @ [[''MISS'']]\<rparr>"
    have w'eq: "w' = fst (Write ?S (w\<lparr>handlerHeader := ?h\<rparr>) (enc @ [CHR 0x0A]))"
      by (simp add: w' path)
    have c: "\<not> wroteHeader w \<longrightarrow>
               status w' = StatusOK \<and> sentHeader w' = header_values s' (handlerHeader w')"
    proof
      assume "\<not> wroteHeader w"
      then have f: "\<not> wroteHeader (w\<lparr>handlerHeader := ?h\<rparr>)" by simp
      have v: "header_values ?S ?h = header_values s' ?h"
        by (rule header_values_cong) (simp add: arrs)
      from Write_fresh [OF f, of ?S "enc @ [CHR 0x0A]"]
      have "status w' = StatusOK \<and> sentHeader w' = header_values ?S ?h"
        unfolding w'eq by simp
      then show "status w' = StatusOK \<and> sentHeader w' = header_values s' (handlerHeader w')"
        unfolding hh v .
    qed
    have d: "cache s' = (cache s)(origin @ Path (URL r) \<mapsto>
                          \<lparr>Response = enc, Headers = Some (Suc (length (hmaps s))),
                           CachedAt = time_Now env\<rparr>)"
      by (simp add: s' path)
    have "deref_map s' (Some (Suc (length (hmaps s)))) =
            snd (alloc_values (arrays s) (reply_header rep))"
      by (simp add: s' path deref_map_def nth_append)
    moreover have "arrays s' = fst (alloc_values (arrays s) (reply_header rep)) @ [[''MISS'']]"
      by (simp add: arrs alloc_values_arrays)
    ultimately have e: "header_values s' (deref_map s' (Some (Suc (length (hmaps s))))) =
              map_of (reply_header rep)"
      by (simp add: alloc_values_view)
    from a b c d e show ?thesis by blast
  qed
  from 1 2 3 show ?thesis by blast
qed

theorem miss_fetches_and_stores_witness:
  \<open>cache empty_world (''http://origin'' @ Path (URL (get ''/x''))) = None
   \<and> origin_server example_env (''http://origin'' @ Path (URL (get ''/x'')))
       = Inr \<lparr>reply_status = 200,
              reply_header = [(''Content-Type'', [''application/json''])],
              reply_body = ''{"a": 1}''\<rparr>
   \<and> json_Decoder_Decode example_env ''{"a": 1}'' = Inr (Some [(''a'', JNumber 1)])
   \<and> json_Marshal example_env (map_value (Some [(''a'', JNumber 1)])) = Inr ''{"a":1}''
   \<and> writeErr new_writer = None
   \<and> fetched (fst (HandleRequest example_env empty_world new_writer (get ''/x'') ''http://origin''))
       = [''http://origin/x'']
   \<and> written (snd (HandleRequest example_env empty_world new_writer (get ''/x'') ''http://origin''))
       = ''{"a":1}'' @ [CHR 0x0A]
   \<and> status (snd (HandleRequest example_env empty_world new_writer (get ''/x'') ''http://origin''))
       = 200
   \<and> sentHeader (snd (HandleRequest example_env empty_world new_writer (get ''/x'') ''http://origin''))
         ''X-Cache''
       = Some [''MISS'']
   \<and> cache (fst (HandleRequest example_env empty_world new_writer (get ''/x'') ''http://origin''))
       = [''http://origin/x'' \<mapsto> example_entry]\<close>
proof -
  let ?rep = \<open>\<lparr>reply_status = 200,
              reply_header = [(''Content-Type'', [''application/json''])],
              reply_body = ''{"a": 1}''\<rparr>\<close>
  let ?R = "HandleRequest example_env empty_world new_writer (get ''/x'') ''http://origin''"
  have h1: "cache empty_world (''http://origin'' @ Path (URL (get ''/x''))) = None"
    by (simp add: empty_world_def)
  have h2: "origin_server example_env (''http://origin'' @ Path (URL (get ''/x''))) = Inr ?rep"
    by (simp add: example_env_def example_origin_def get_def)
  have h3: \<open>json_Decoder_Decode example_env ''{"a": 1}'' = Inr (Some [(''a'', JNumber 1)])\<close>
    by (simp add: json_Decoder_Decode_def example_env_def example_json_value_def)
  then have h3': "json_Decoder_Decode example_env (reply_body ?rep) = Inr (Some [(''a'', JNumber 1)])"
    by simp
  have h4: \<open>json_Marshal example_env (map_value (Some [(''a'', JNumber 1)])) = Inr ''{"a":1}''\<close>
    by (simp add: map_value_def example_env_def example_Marshal_def)
  have h5: "writeErr new_writer = None"
    by (simp add: new_writer_def)
  have h6: "\<not> wroteHeader new_writer"
    by (simp add: new_writer_def)
  note t = miss_fetches_and_stores [OF h1 surjective_pairing,
      of example_env new_writer _ _ ?rep "Some [(''a'', JNumber 1)]" \<open>''{"a":1}''\<close>]
  from t have a: "fetched (fst ?R) = [''http://origin/x'']"
    by (simp add: empty_world_def get_def)
  from t h2 h3' h4 h5 have b: \<open>written (snd ?R) = ''{"a":1}'' @ [CHR 0x0A]\<close>
    by (simp add: new_writer_def)
  from t h2 h3' h4 h5 h6 have c: "status (snd ?R) = 200"
    by (simp add: StatusOK_def)
  from t h2 h3' h4 h5 h6 have d: "sentHeader (snd ?R) ''X-Cache'' = Some [''MISS'']"
    by simp
  from t h2 h3' h4 h5 have e: "cache (fst ?R) = [''http://origin/x'' \<mapsto> example_entry]"
    by (simp add: empty_world_def get_def example_entry_def example_env_def)
  from h1 h2 h3 h4 h5 a b c d e show ?thesis by blast
qed

text \<open>
  The claim as it is stated promises the marker, the body and the insert for every
  request whose key is absent. The handler leaves on each of its error branches before
  that. With the origin down, and with a body that does not decode, no marker is set, the
  body is the error message and nothing is stored; with a client connection that fails
  on the write, the error message follows the JSON and nothing is stored.
\<close>

theorem failed_miss_stores_nothing:
  \<open>cache empty_world (''http://origin'' @ Path (URL (get ''/down''))) = None
   \<and> handlerHeader
        (snd (HandleRequest example_env empty_world new_writer (get ''/down'') ''http://origin''))
        ''X-Cache'' = None
   \<and> written
        (snd (HandleRequest example_env empty_world new_writer (get ''/down'') ''http://origin''))
       = ''Error fetching from origin'' @ [CHR 0x0A]
   \<and> cache (fst (HandleRequest example_env empty_world new_writer (get ''/down'') ''http://origin''))
        (''http://origin'' @ Path (URL (get ''/down''))) = None
   \<and> cache empty_world (''http://origin'' @ Path (URL (get ''/text''))) = None
   \<and> handlerHeader
        (snd (HandleRequest example_env empty_world new_writer (get ''/text'') ''http://origin''))
        ''X-Cache'' = None
   \<and> cache (fst (HandleRequest example_env empty_world new_writer (get ''/text'') ''http://origin''))
        (''http://origin'' @ Path (URL (get ''/text''))) = None
   \<and> cache empty_world (''http://origin'' @ Path (URL (get ''/x''))) = None
   \<and> written
        (snd (HandleRequest example_env empty_world (new_writer\<lparr>writeErr := Some ''broken pipe''\<rparr>)
               (get ''/x'') ''http://origin''))
       = ''{"a":1}'' @ [CHR 0x0A] @ ''Error encoding response'' @ [CHR 0x0A]
   \<and> cache (fst (HandleRequest example_env empty_world
                    (new_writer\<lparr>writeErr := Some ''broken pipe''\<rparr>) (get ''/x'') ''http://origin''))
        (''http://origin'' @ Path (URL (get ''/x''))) = None\<close>
proof -
  let ?R = "HandleRequest example_env empty_world new_writer (get ''/down'') ''http://origin''"
  have h1: "cache empty_world (''http://origin'' @ Path (URL (get ''/down''))) = None"
    by (simp add: empty_world_def)
  have h2: "origin_server example_env (''http://origin'' @ Path (URL (get ''/down'')))
              = Inl ''dial tcp: connection refused''"
    by (simp add: example_env_def example_origin_def get_def)
  note path = HandleRequest_fetch_failed [OF h1 h2, of new_writer]
  have a: "handlerHeader (snd ?R) ''X-Cache'' = None"
    unfolding path
    by (simp add: http_Error_def Header_Set_def Header_Del_def Write_handlerHeader
        WriteHeader_def new_writer_def)
  have b: "written (snd ?R) = ''Error fetching from origin'' @ [CHR 0x0A]"
    unfolding path by (simp add: http_Error_written new_writer_def)
  have c: "cache (fst ?R) (''http://origin'' @ Path (URL (get ''/down''))) = None"
    unfolding path by (simp add: http_Error_world empty_world_def)
  let ?T = "HandleRequest example_env empty_world new_writer (get ''/text'') ''http://origin''"
  have t1: "cache empty_world (''http://origin'' @ Path (URL (get ''/text''))) = None"
    by (simp add: empty_world_def)
  have t2: "origin_server example_env (''http://origin'' @ Path (URL (get ''/text'')))
       = Inr \<lparr>reply_status = 200, reply_header = [], reply_body = ''not json''\<rparr>"
    by (simp add: example_env_def example_origin_def get_def)
  have t3: "json_Decoder_Decode example_env
              (reply_body \<lparr>reply_status = 200, reply_header = [], reply_body = ''not json''\<rparr>)
            = Inl ''invalid character''"
    by (simp add: json_Decoder_Decode_def example_env_def example_json_value_def)
  note tpath = HandleRequest_decode_failed [OF t1 t2 t3, of new_writer]
  have d: "handlerHeader (snd ?T) ''X-Cache'' = None"
    unfolding tpath
    by (simp add: http_Error_def Header_Set_def Header_Del_def Write_handlerHeader
        WriteHeader_def new_writer_def)
  have e: "cache (fst ?T) (''http://origin'' @ Path (URL (get ''/text''))) = None"
    unfolding tpath by (simp add: http_Error_world empty_world_def)
  let ?w = "new_writer\<lparr>writeErr := Some ''broken pipe''\<rparr>"
  let ?X = "HandleRequest example_env empty_world ?w (get ''/x'') ''http://origin''"
  have x5: "writeErr ?w = Some ''broken pipe''"
    by simp
  have x3: \<open>json_Decoder_Decode example_env
              (reply_body \<lparr>reply_status = 200,
                 reply_header = [(''Content-Type'', [''application/json''])],
                 reply_body = ''{"a": 1}''\<rparr>) = Inr (Some [(''a'', JNumber 1)])\<close>
    by (rule Decode_object [OF example_facts(3)])
  have x4: \<open>json_Marshal example_env (map_value (Some [(''a'', JNumber 1)])) = Inr ''{"a":1}''\<close>
    by (simp add: map_value_def example_facts(4))
  note xpath = HandleRequest_write_failed [OF example_facts(1,2) x3 x4 x5]
  have f: \<open>written (snd ?X) =
       ''{"a":1}'' @ [CHR 0x0A] @ ''Error encoding response'' @ [CHR 0x0A]\<close>
    unfolding xpath by (simp add: http_Error_written Write_written new_writer_def)
  have g: "cache (fst ?X) (''http://origin'' @ Path (URL (get ''/x''))) = None"
    unfolding xpath by (simp add: http_Error_world empty_world_def)
  from h1 a b c t1 d e example_facts(1) f g show ?thesis by blast
qed

subsection \<open>Decoding and encoding again\<close>


text \<open>
  The handler passes the decoded value to the encoder twice and serves the stored bytes
  on every later hit; this is stated below at the level of bytes. Whether those bytes read
  back as the decoded value is a matter of \<^verbatim>\<open>encoding/json\<close> alone (its scanner, its
  encoder and the formatting of \<^verbatim>\<open>float64\<close> numbers), which are parameters of this
  development and of which nothing is assumed.
\<close>



subsection \<open>The status code of the origin\<close>

lemma answer_status_simps:
  "json_value (answer_status f env) = json_value env"
  "json_Marshal (answer_status f env) = json_Marshal env"
  "time_Now (answer_status f env) = time_Now env"
  "json_Decoder_Decode (answer_status f env) = json_Decoder_Decode env"
  by (simp_all add: answer_status_def json_Decoder_Decode_def fun_eq_iff)

lemma answer_status_origin:
  "origin_server env u = Inl err \<Longrightarrow> origin_server (answer_status f env) u = Inl err"
  "origin_server env u = Inr rep \<Longrightarrow>
     origin_server (answer_status f env) u = Inr (rep\<lparr>reply_status := f u\<rparr>)"
  by (simp_all add: answer_status_def)

lemma HandleRequest_answer_status:
  "HandleRequest (answer_status f env) s w r origin = HandleRequest env s w r origin"
proof (cases "cache s (origin @ Path (URL r))")
  case (Some item)
  show ?thesis by (simp add: HandleRequest_hit [OF Some])
next
  case miss: None
  show ?thesis
  proof (cases "origin_server env (origin @ Path (URL r))")
    case (Inl err)
    show ?thesis
      by (simp add: HandleRequest_fetch_failed [OF miss Inl]
          HandleRequest_fetch_failed [OF miss answer_status_origin(1) [OF Inl]])
  next
    case (Inr rep)
    note Inr' = answer_status_origin(2) [OF Inr, of f]
    show ?thesis
    proof (cases "json_Decoder_Decode env (reply_body rep)")
      case (Inl err)
      then have Inl': "json_Decoder_Decode (answer_status f env)
                         (reply_body (rep\<lparr>reply_status := f (origin @ Path (URL r))\<rparr>)) = Inl err"
        by (simp add: answer_status_simps)
      show ?thesis
        by (simp add: HandleRequest_decode_failed [OF miss Inr Inl]
            HandleRequest_decode_failed [OF miss Inr' Inl'])
    next
      case data: (Inr data)
      then have data': "json_Decoder_Decode (answer_status f env)
                         (reply_body (rep\<lparr>reply_status := f (origin @ Path (URL r))\<rparr>)) = Inr data"
        by (simp add: answer_status_simps)
      show ?thesis
      proof (cases "json_Marshal env (map_value data)")
        case (Inl err)
        then have Inl': "json_Marshal (answer_status f env) (map_value data) = Inl err"
          by (simp add: answer_status_simps)
        show ?thesis
          by (simp add: HandleRequest_encode_failed [OF miss Inr data Inl]
              HandleRequest_encode_failed [OF miss Inr' data' Inl'])
      next
        case enc: (Inr enc)
        then have enc': "json_Marshal (answer_status f env) (map_value data) = Inr enc"
          by (simp add: answer_status_simps)
        show ?thesis
        proof (cases "writeErr w")
          case None
          show ?thesis
            by (simp add: HandleRequest_stored [OF miss Inr data enc None]
                HandleRequest_stored [OF miss Inr' data' enc' None] answer_status_simps)
        next
          case (Some err)
          show ?thesis
            by (simp add: HandleRequest_write_failed [OF miss Inr data enc Some]
                HandleRequest_write_failed [OF miss Inr' data' enc' Some])
        qed
      qed
    qed
  qed
qed

lemma hit_status:
  assumes "cache s (origin @ Path (URL r)) = Some item" and "\<not> wroteHeader w"
  shows "status (snd (HandleRequest env s w r origin)) = StatusOK"
  using assms(2) by (simp add: HandleRequest_hit [OF assms(1)] Write_fresh)

lemma miss_status:
  assumes miss: "cache s (origin @ Path (URL r)) = None"
    and reply: "origin_server env (origin @ Path (URL r)) = Inr rep"
    and data: "json_Decoder_Decode env (reply_body rep) = Inr data"
    and enc: "json_Marshal env (map_value data) = Inr enc"
    and fresh: "\<not> wroteHeader w"
  shows "status (snd (HandleRequest env s w r origin)) = StatusOK"
proof (cases "writeErr w")
  case None
  show ?thesis
    using fresh by (simp add: HandleRequest_stored [OF miss reply data enc None] Write_fresh)
next
  case (Some err)
  show ?thesis
    using fresh
    by (simp add: HandleRequest_write_failed [OF miss reply data enc Some]
        http_Error_status Write_wroteHeader Write_fresh)
qed

text \<open>
  Claim C9. The handler never reads the status code of the origin's response and the
  cache has no place for it: whatever status the origin answers with, the handler ends in
  the same state with the same response. On a writer that has not sent its header, a hit
  answers 200, and so does a miss whose body decodes as a JSON object and encodes again;
  when the write succeeds that response is stored under the key like any other.
\<close>

theorem origin_status_is_ignored:
  "HandleRequest (answer_status f env) s w r origin = HandleRequest env s w r origin
   \<and> (\<not> wroteHeader w \<and> cache s (origin @ Path (URL r)) = Some item \<longrightarrow>
        status (snd (HandleRequest env s w r origin)) = StatusOK)
   \<and> (\<not> wroteHeader w \<and> cache s (origin @ Path (URL r)) = None
        \<and> origin_server env (origin @ Path (URL r)) = Inr rep
        \<and> json_value env (reply_body rep) = Inr (JObject members)
        \<and> json_Marshal env (JObject members) = Inr enc \<longrightarrow>
        status (snd (HandleRequest env s w r origin)) = StatusOK
        \<and> (writeErr w = None \<longrightarrow>
             cache (fst (HandleRequest env s w r origin)) (origin @ Path (URL r)) =
               Some \<lparr>Response = enc, Headers = Some (Suc (length (hmaps s))),
                     CachedAt = time_Now env\<rparr>))"
proof -
  have 1: "HandleRequest (answer_status f env) s w r origin = HandleRequest env s w r origin"
    by (rule HandleRequest_answer_status)
  have 2: "status (snd (HandleRequest env s w r origin)) = StatusOK"
    if "\<not> wroteHeader w" and "cache s (origin @ Path (URL r)) = Some item"
    using that by (simp add: hit_status)
  have 3: "status (snd (HandleRequest env s w r origin)) = StatusOK
        \<and> (writeErr w = None \<longrightarrow>
             cache (fst (HandleRequest env s w r origin)) (origin @ Path (URL r)) =
               Some \<lparr>Response = enc, Headers = Some (Suc (length (hmaps s))),
                     CachedAt = time_Now env\<rparr>)"
    if fresh: "\<not> wroteHeader w" and miss: "cache s (origin @ Path (URL r)) = None"
      and reply: "origin_server env (origin @ Path (URL r)) = Inr rep"
      and obj: "json_value env (reply_body rep) = Inr (JObject members)"
      and enc: "json_Marshal env (JObject members) = Inr enc"
  proof -
    from enc have enc': "json_Marshal env (map_value (Some members)) = Inr enc"
      by (simp add: map_value_def)
    note data = Decode_object [OF obj]
    have a: "status (snd (HandleRequest env s w r origin)) = StatusOK"
      by (rule miss_status [OF miss reply data enc' fresh])
    have b: "cache (fst (HandleRequest env s w r origin)) (origin @ Path (URL r)) =
               Some \<lparr>Response = enc, Headers = Some (Suc (length (hmaps s))),
                     CachedAt = time_Now env\<rparr>" if ok: "writeErr w = None"
      by (simp add: HandleRequest_stored [OF miss reply data enc' ok])
    from a b show ?thesis by blast
  qed
  from 1 2 3 show ?thesis by blast
qed

theorem origin_status_is_ignored_witness:
  \<open>\<not> wroteHeader new_writer
   \<and> cache warm_world (''http://origin'' @ Path (URL (get ''/x''))) = Some example_entry
   \<and> status (snd (HandleRequest example_env warm_world new_writer (get ''/x'') ''http://origin''))
       = 200
   \<and> cache warm_world (''http://origin'' @ Path (URL (get ''/gone''))) = None
   \<and> origin_server example_env (''http://origin'' @ Path (URL (get ''/gone''))) =
       Inr \<lparr>reply_status = 404,
            reply_header = [(''Content-Type'', [''application/json''])],
            reply_body = ''{"a": 1}''\<rparr>
   \<and> json_value example_env ''{"a": 1}'' = Inr example_object
   \<and> json_Marshal example_env example_object = Inr ''{"a":1}''
   \<and> writeErr new_writer = None
   \<and> status (snd (HandleRequest example_env warm_world new_writer (get ''/gone'') ''http://origin''))
       = 200
   \<and> cache (fst (HandleRequest example_env warm_world new_writer (get ''/gone'') ''http://origin''))
        ''http://origin/gone''
       = Some \<lparr>Response = ''{"a":1}'', Headers = Some 3, CachedAt = 7\<rparr>
   \<and> HandleRequest (answer_status (\<lambda>u. 200) example_env) warm_world new_writer (get ''/gone'')
         ''http://origin''
       = HandleRequest example_env warm_world new_writer (get ''/gone'') ''http://origin''\<close>
proof -
  let ?rep = \<open>\<lparr>reply_status = 404,
            reply_header = [(''Content-Type'', [''application/json''])],
            reply_body = ''{"a": 1}''\<rparr>\<close>
  have h1: "cache warm_world (''http://origin'' @ Path (URL (get ''/x''))) = Some example_entry"
    by (simp add: warm_world_def get_def)
  have h2: "cache warm_world (''http://origin'' @ Path (URL (get ''/gone''))) = None"
    by (simp add: warm_world_def get_def)
  have h3: "origin_server example_env (''http://origin'' @ Path (URL (get ''/gone''))) = Inr ?rep"
    by (simp add: example_env_def example_origin_def get_def)
  have h4: "json_value example_env (reply_body ?rep) = Inr (JObject [(''a'', JNumber 1)])"
    by (simp add: example_env_def example_json_value_def)
  note fresh = example_facts(9)
  note t1 = origin_status_is_ignored
    [of "\<lambda>u. 200" example_env warm_world new_writer "get ''/x''" "''http://origin''" example_entry]
  note t2 = origin_status_is_ignored
    [of "\<lambda>u. 200" example_env warm_world new_writer "get ''/gone''" "''http://origin''" _ ?rep
      "[(''a'', JNumber 1)]" \<open>''{"a":1}''\<close>]
  from t1 fresh h1
  have a: "status (snd (HandleRequest example_env warm_world new_writer (get ''/x'')
             ''http://origin'')) = 200"
    by (simp add: StatusOK_def)
  from t2 fresh h2 h3 h4 example_facts(4)
  have b: "status (snd (HandleRequest example_env warm_world new_writer (get ''/gone'')
             ''http://origin'')) = StatusOK"
    and c0: \<open>writeErr new_writer = None \<longrightarrow>
          cache (fst (HandleRequest example_env warm_world new_writer (get ''/gone'')
             ''http://origin'')) (''http://origin'' @ Path (URL (get ''/gone''))) =
             Some \<lparr>Response = ''{"a":1}'', Headers = Some (Suc (length (hmaps warm_world))),
                   CachedAt = time_Now example_env\<rparr>\<close>
    by blast+
  from c0 example_facts(7)
  have c: \<open>cache (fst (HandleRequest example_env warm_world new_writer (get ''/gone'')
             ''http://origin'')) ''http://origin/gone''
           = Some \<lparr>Response = ''{"a":1}'', Headers = Some 3, CachedAt = 7\<rparr>\<close>
    by (simp add: get_def warm_world_def example_env_def)
  from t2 have d: "HandleRequest (answer_status (\<lambda>u. 200) example_env) warm_world new_writer
         (get ''/gone'') ''http://origin''
       = HandleRequest example_env warm_world new_writer (get ''/gone'') ''http://origin''"
    by blast
  from h4 have e: \<open>json_value example_env ''{"a": 1}'' = Inr example_object\<close>
    by (simp add: example_object_def)
  from b have b': "status (snd (HandleRequest example_env warm_world new_writer (get ''/gone'')
             ''http://origin'')) = 200"
    by (simp add: StatusOK_def)
  from fresh h1 a h2 h3 e example_facts(4,7) b' c d show ?thesis
    unfolding example_object_def by blast
qed

subsection \<open>The headers of an entry and the headers of the response\<close>

text \<open>
  Claim C5. The copy loop gives the entry a map object of its own, but every value it
  assigns is the slice of the response's map: both maps point at the same arrays. In the
  example the origin's response has its header map at address 0; after the insert the
  holder of that map assigns \<^verbatim>\<open>res.Header["Content-Type"][0] = "text/plain"\<close>, and the
  next hit sends \<^verbatim>\<open>text/plain\<close> instead of the \<^verbatim>\<open>application/json\<close> that was
  inserted.
\<close>

theorem cached_headers_share_the_arrays_of_the_response:
  \<open>snd (http_Get example_env empty_world ''http://origin/x'') =
     Inr \<lparr>StatusCode = 200, Header = Some 0, Body = ''{"a": 1}''\<rparr>
   \<and> fst (HandleRequest example_env empty_world new_writer (get ''/x'') ''http://origin'') =
       warm_world
   \<and> deref_map warm_world (Some 0) ''Content-Type'' = Some \<lparr>arr = 0, off = 0, len = 1\<rparr>
   \<and> sentHeader
        (snd (HandleRequest example_env warm_world new_writer (get ''/x'') ''http://origin''))
        ''Content-Type'' = Some [''application/json'']
   \<and> sentHeader
        (snd (HandleRequest example_env
               (store_elem warm_world \<lparr>arr = 0, off = 0, len = 1\<rparr> 0 ''text/plain'')
               new_writer (get ''/x'') ''http://origin''))
        ''Content-Type'' = Some [''text/plain'']\<close>
proof -
  have a: \<open>snd (http_Get example_env empty_world ''http://origin/x'') =
     Inr \<lparr>StatusCode = 200, Header = Some 0, Body = ''{"a": 1}''\<rparr>\<close>
    by (simp add: http_Get_def example_env_def example_origin_def empty_world_def)
  have b: "fst (HandleRequest example_env empty_world new_writer (get ''/x'') ''http://origin'') =
       warm_world"
    by (rule first_request_warms)
  have c: "deref_map warm_world (Some 0) ''Content-Type'' = Some \<lparr>arr = 0, off = 0, len = 1\<rparr>"
    by (simp add: deref_map_def warm_world_def)
  have h1: "cache warm_world (''http://origin'' @ Path (URL (get ''/x''))) = Some example_entry"
    by (simp add: warm_world_def get_def)
  let ?s2 = "store_elem warm_world \<lparr>arr = 0, off = 0, len = 1\<rparr> 0 ''text/plain''"
  have s2: "?s2 = warm_world\<lparr>arrays := [[''text/plain''], [''MISS'']]\<rparr>"
    by (simp add: store_elem_def warm_world_def)
  have h2: "cache (warm_world\<lparr>arrays := [[''text/plain''], [''MISS'']]\<rparr>)
              (''http://origin'' @ Path (URL (get ''/x''))) = Some example_entry"
    by (simp add: warm_world_def get_def)
  have d: "sentHeader
        (snd (HandleRequest example_env warm_world new_writer (get ''/x'') ''http://origin''))
        ''Content-Type'' = Some [''application/json'']"
    unfolding HandleRequest_hit [OF h1]
    by (simp add: Write_fresh header_values_def slice_elems_def deref_map_def
        example_entry_def new_writer_def warm_world_def map_add_def)
  have e: "sentHeader
        (snd (HandleRequest example_env ?s2 new_writer (get ''/x'') ''http://origin''))
        ''Content-Type'' = Some [''text/plain'']"
    unfolding s2 HandleRequest_hit [OF h2]
    by (simp add: Write_fresh header_values_def slice_elems_def deref_map_def
        example_entry_def new_writer_def warm_world_def map_add_def)
  from a b c d e show ?thesis by blast
qed

text \<open>What the copy does achieve: the entry's map is another object than the map of the
  response, so assigning or deleting keys of the latter does not reach the entry.\<close>

lemma copied_map_is_a_new_object:
  assumes "cache s (origin @ Path (URL r)) = None"
    and "origin_server env (origin @ Path (URL r)) = Inr rep"
    and "json_Decoder_Decode env (reply_body rep) = Inr data"
    and "json_Marshal env (map_value data) = Inr enc"
    and "writeErr w = None"
    and "HandleRequest env s w r origin = (s', w')"
  shows "snd (http_Get env s (origin @ Path (URL r))) =
           Inr \<lparr>StatusCode = reply_status rep, Header = Some (length (hmaps s)),
                Body = reply_body rep\<rparr>
       \<and> map_option Headers (cache s' (origin @ Path (URL r))) = Some (Some (Suc (length (hmaps s))))
       \<and> deref_map (s'\<lparr>hmaps := (hmaps s')[length (hmaps s) := m']\<rparr>)
            (Some (Suc (length (hmaps s)))) =
           deref_map s' (Some (Suc (length (hmaps s))))"
proof -
  from assms(6) have s': "s' = fst (HandleRequest env s w r origin)"
    by simp
  show ?thesis
    by (simp add: s' HandleRequest_stored [OF assms(1-5)] http_Get_ok [OF assms(2)]
        deref_map_def nth_append)
qed

text \<open>What it does not achieve, for any origin and any request: the two maps hold the
  same slices, so in every later store with these maps (whatever was assigned to the
  elements of the arrays) the entry shows exactly what the map of the response shows.\<close>

lemma entry_shares_the_slices_of_the_response:
  assumes "cache s (origin @ Path (URL r)) = None"
    and "origin_server env (origin @ Path (URL r)) = Inr rep"
    and "json_Decoder_Decode env (reply_body rep) = Inr data"
    and "json_Marshal env (map_value data) = Inr enc"
    and "writeErr w = None"
    and "HandleRequest env s w r origin = (s', w')"
    and "hmaps s2 = hmaps s'"
  shows "deref_map s2 (Some (Suc (length (hmaps s)))) = deref_map s2 (Some (length (hmaps s)))
       \<and> header_values s2 (deref_map s2 (Some (Suc (length (hmaps s))))) =
           header_values s2 (deref_map s2 (Some (length (hmaps s))))"
proof -
  from assms(6) have s': "s' = fst (HandleRequest env s w r origin)"
    by simp
  have "deref_map s2 (Some (Suc (length (hmaps s)))) = deref_map s2 (Some (length (hmaps s)))"
    by (simp add: assms(7) s' HandleRequest_stored [OF assms(1-5)] deref_map_def nth_append)
  then show ?thesis by simp
qed

end
